theory Spec2Isabelle
  imports Complex_Main "HOL-Library.Word"
begin

section \<open>JavaScript values used by the scripts\<close>

text \<open>
  A thrown JavaScript error object: its \<open>name\<close> and its \<open>message\<close>. Every
  \<open>throw new Error(msg)\<close> of the sources is \<open>Error msg\<close>; errors raised by the
  libraries (\<open>SyntaxError\<close>, \<open>RangeError\<close>, ...) carry their own name.
\<close>

datatype exn = Exn string string

abbreviation Error :: "string \<Rightarrow> exn" where
  "Error msg \<equiv> Exn ''Error'' msg"

text \<open>\<open>Error.prototype.toString\<close>, which a template literal \<open>${error}\<close> calls.\<close>

fun toString :: "exn \<Rightarrow> string" where
  "toString (Exn name msg) =
     (if name = [] then msg else if msg = [] then name else name @ '': '' @ msg)"

text \<open>
  A JavaScript \<open>number\<close>. The scripts only test numbers for truthiness and for being
  an integer, so a finite number is kept as the rational it denotes.
\<close>

datatype number = NaN | PosInf | NegInf | Num rat

fun truthy_number :: "number \<Rightarrow> bool" where
  "truthy_number NaN = False"
| "truthy_number (Num r) = (r \<noteq> 0)"
| "truthy_number _ = True"

text \<open>What \<open>JSON.parse\<close> returns.\<close>

datatype json =
    JNull
  | JBool bool
  | JNumber number
  | JString string
  | JArray "json list"
  | JObject "(string \<times> json) list"

text \<open>\<open>!Array.isArray(x) || x.length !== 64\<close>: the length is read only of an array.\<close>

fun not_array_of_64 :: "json \<Rightarrow> bool" where
  "not_array_of_64 (JArray xs) = (length xs \<noteq> 64)"
| "not_array_of_64 _ = True"

fun array_elements :: "json \<Rightarrow> json list" where
  "array_elements (JArray xs) = xs"
| "array_elements _ = []"

text \<open>
  \<open>a || b\<close> on values of \<open>process.env\<close> (\<open>string | undefined\<close>): \<open>undefined\<close> and the
  empty string are falsy.
\<close>

fun truthy_str :: "string option \<Rightarrow> bool" where
  "truthy_str None = False"
| "truthy_str (Some s) = (s \<noteq> [])"

definition js_or :: "string option \<Rightarrow> string option \<Rightarrow> string option" where
  "js_or a b = (if truthy_str a then a else b)"

fun js_or_default :: "string option \<Rightarrow> string \<Rightarrow> string" where
  "js_or_default None d = d"
| "js_or_default (Some s) d = (if s \<noteq> [] then s else d)"


section \<open>config/devnet\<close>

definition RPC_ENDPOINTS_DEFAULT :: string where
  "RPC_ENDPOINTS_DEFAULT = ''https://api.devnet.solana.com''"

definition SETTINGS_DEFAULT_COMMITMENT :: string where
  "SETTINGS_DEFAULT_COMMITMENT = ''confirmed''"

text \<open>
  \<open>process.env\<close> is a map from variable names to strings.
  \<^verbatim>\<open>process.env.DEVNET_RPC_URL || process.env.HELIUS_DEVNET_RPC_URL || DEVNET_CONFIG.RPC_ENDPOINTS.DEFAULT\<close>
\<close>

definition getDevnetRpcUrl :: "(string \<rightharpoonup> string) \<Rightarrow> string" where
  "getDevnetRpcUrl env =
     js_or_default (js_or (env ''DEVNET_RPC_URL'') (env ''HELIUS_DEVNET_RPC_URL''))
       RPC_ENDPOINTS_DEFAULT"

text \<open>Concrete environments: nothing set, and \<open>DEVNET_RPC_URL=\<close> left blank.\<close>

definition env_unset :: "string \<rightharpoonup> string" where
  "env_unset = (\<lambda>k. None)"

definition env_blank_devnet :: "string \<rightharpoonup> string" where
  "env_blank_devnet = (\<lambda>k. if k = ''DEVNET_RPC_URL'' then Some [] else None)"

definition env_devnet :: "string \<rightharpoonup> string" where
  "env_devnet = (\<lambda>k. if k = ''DEVNET_RPC_URL'' then Some ''http://a'' else None)"

definition env_helius :: "string \<rightharpoonup> string" where
  "env_helius = (\<lambda>k. if k = ''HELIUS_DEVNET_RPC_URL'' then Some ''http://h'' else None)"


section \<open>utils/wallet: WalletManager\<close>

type_synonym byte = "8 word"

record keypair =
  publicKey :: string
  secretKey :: "byte list"

text \<open>
  What the wallet loader calls and does not define: the file system, \<open>path.join\<close>,
  \<open>JSON.parse\<close>, \<open>String.prototype.trim\<close>, \<open>parseInt\<close>, the element conversion of
  \<open>new Uint8Array(array)\<close> and \<open>Keypair.fromSecretKey\<close>. A call that can throw
  returns \<open>Inl\<close> of the thrown error.
\<close>

record fs_env =
  path_join :: "string \<Rightarrow> string \<Rightarrow> string"
  existsSync :: "string \<Rightarrow> bool"
  readFileSync :: "string \<Rightarrow> exn + string"
  readdirSync :: "string \<Rightarrow> exn + string list"
  JSON_parse :: "string \<Rightarrow> exn + json"
  str_trim :: "string \<Rightarrow> string"
  parseInt :: "string \<Rightarrow> number"
  toUint8 :: "json \<Rightarrow> byte"
  fromSecretKey :: "byte list \<Rightarrow> exn + keypair"

text \<open>The \<open>try\<close> block of \<open>loadWalletFromFile\<close>.\<close>

definition loadWalletFromFile_try :: "fs_env \<Rightarrow> string \<Rightarrow> string \<Rightarrow> exn + keypair" where
  "loadWalletFromFile_try E filePath filename =
     (case readFileSync E filePath of
        Inl e \<Rightarrow> Inl e
      | Inr walletData \<Rightarrow>
          (case JSON_parse E walletData of
             Inl e \<Rightarrow> Inl e
           | Inr privateKeyArray \<Rightarrow>
               if not_array_of_64 privateKeyArray
               then Inl (Error (''Invalid wallet format in '' @ filename))
               else fromSecretKey E (map (toUint8 E) (array_elements privateKeyArray))))"

definition loadWalletFromFile :: "fs_env \<Rightarrow> string \<Rightarrow> string \<Rightarrow> exn + keypair" where
  "loadWalletFromFile E walletsDir filename =
     (let filePath = path_join E walletsDir filename in
      if \<not> existsSync E filePath
      then Inl (Error (''Wallet file not found: '' @ filePath))
      else (case loadWalletFromFile_try E filePath filename of
              Inl error \<Rightarrow>
                Inl (Error (''Failed to load wallet from '' @ filename @ '': '' @ toString error))
            | Inr kp \<Rightarrow> Inr kp))"

text \<open>\<open>s.split(",")\<close>: the pieces between commas; the empty string gives one empty piece.\<close>

fun split_comma :: "string \<Rightarrow> string list" where
  "split_comma [] = [[]]"
| "split_comma (c # cs) =
     (if c = CHR '','' then [] # split_comma cs
      else (case split_comma cs of
              [] \<Rightarrow> [[c]]
            | p # ps \<Rightarrow> (c # p) # ps))"

definition loadWalletFromPrivateKey_try :: "fs_env \<Rightarrow> string \<Rightarrow> string \<Rightarrow> exn + keypair" where
  "loadWalletFromPrivateKey_try E filePath filename =
     (case readFileSync E filePath of
        Inl e \<Rightarrow> Inl e
      | Inr contents \<Rightarrow>
          (let privateKeyString = str_trim E contents;
               privateKeyArray = map (\<lambda>num. parseInt E (str_trim E num)) (split_comma privateKeyString)
           in if length privateKeyArray \<noteq> 64
              then Inl (Error (''Invalid private key format in '' @ filename))
              else fromSecretKey E (map (\<lambda>n. toUint8 E (JNumber n)) privateKeyArray)))"

definition loadWalletFromPrivateKey :: "fs_env \<Rightarrow> string \<Rightarrow> string \<Rightarrow> exn + keypair" where
  "loadWalletFromPrivateKey E walletsDir filename =
     (let filePath = path_join E walletsDir filename in
      if \<not> existsSync E filePath
      then Inl (Error (''Private key file not found: '' @ filePath))
      else (case loadWalletFromPrivateKey_try E filePath filename of
              Inl error \<Rightarrow>
                Inl (Error (''Failed to load wallet from private key file '' @ filename
                            @ '': '' @ toString error))
            | Inr kp \<Rightarrow> Inr kp))"

definition loadTradingWallet :: "fs_env \<Rightarrow> string \<Rightarrow> exn + keypair" where
  "loadTradingWallet E walletsDir =
     (case loadWalletFromFile E walletsDir ''trading-wallet.json'' of
        Inr kp \<Rightarrow> Inr kp
      | Inl error \<Rightarrow>
          (case loadWalletFromPrivateKey E walletsDir ''trading-private_key.txt'' of
             Inr kp \<Rightarrow> Inr kp
           | Inl fallbackError \<Rightarrow>
               Inl (Error (''Failed to load trading wallet: '' @ toString error
                           @ ''. Fallback also failed: '' @ toString fallbackError))))"

definition loadTestWallet :: "fs_env \<Rightarrow> string \<Rightarrow> exn + keypair" where
  "loadTestWallet E walletsDir =
     (case loadWalletFromFile E walletsDir ''test-wallet.json'' of
        Inr kp \<Rightarrow> Inr kp
      | Inl error \<Rightarrow>
          (case loadWalletFromPrivateKey E walletsDir ''test-private_key.txt'' of
             Inr kp \<Rightarrow> Inr kp
           | Inl fallbackError \<Rightarrow>
               Inl (Error (''Failed to load test wallet: '' @ toString error
                           @ ''. Fallback also failed: '' @ toString fallbackError))))"

definition endsWith :: "string \<Rightarrow> string \<Rightarrow> bool" where
  "endsWith s suf = (length suf \<le> length s \<and> drop (length s - length suf) s = suf)"

definition listAvailableWallets :: "fs_env \<Rightarrow> string \<Rightarrow> exn + string list" where
  "listAvailableWallets E walletsDir =
     (if \<not> existsSync E walletsDir then Inr []
      else (case readdirSync E walletsDir of
              Inl e \<Rightarrow> Inl e
            | Inr files \<Rightarrow>
                Inr (filter (\<lambda>file. endsWith file ''.json'' \<or> endsWith file ''_private_key.txt'')
                       files)))"

text \<open>
  Concrete file systems for the wallet loader. \<open>fs_none\<close> has no file. The others hold
  one file \<open>w/k.json\<close>, whose parsed content is an array of 64 zeros (\<open>fs_good\<close>) or an
  array of 3 zeros (\<open>fs_short\<close>).
\<close>

definition demo_keypair :: keypair where
  "demo_keypair = \<lparr> publicKey = ''PK'', secretKey = replicate 64 0 \<rparr>"

definition fs_with :: "bool \<Rightarrow> (exn + json) \<Rightarrow> fs_env" where
  "fs_with present parsed =
     \<lparr> path_join = (\<lambda>d f. d @ ''/'' @ f),
       existsSync = (\<lambda>p. present),
       readFileSync = (\<lambda>p. Inr ''data''),
       readdirSync = (\<lambda>p. Inr [''k.json'', ''notes.md'']),
       JSON_parse = (\<lambda>s. parsed),
       str_trim = (\<lambda>s. s),
       parseInt = (\<lambda>s. NaN),
       toUint8 = (\<lambda>j. 0),
       fromSecretKey = (\<lambda>bs. if length bs = 64 then Inr demo_keypair
                               else Inl (Error ''bad secret key size'')) \<rparr>"

definition fs_none :: fs_env where
  "fs_none = fs_with False (Inl (Exn ''SyntaxError'' ''Unexpected end of JSON input''))"

definition fs_good :: fs_env where
  "fs_good = fs_with True (Inr (JArray (replicate 64 (JNumber (Num 0)))))"

definition fs_short :: fs_env where
  "fs_short = fs_with True (Inr (JArray (replicate 3 (JNumber (Num 0)))))"


section \<open>example/util: getSPLBalance\<close>

text \<open>
  \<open>uiAmount\<close> of a token amount: a number, \<open>null\<close> or \<open>undefined\<close>. An
  account whose data lacks a link of the chain
  \<open>account.data.parsed.info.tokenAmount\<close> is \<open>Unparsed\<close>: reading
  \<open>uiAmount\<close> through it throws a \<open>TypeError\<close>.
\<close>

datatype ui_amount = Undefined | Null | Number number

datatype account_data = Unparsed | Parsed ui_amount

record token_account =
  pubkey :: string
  account_data :: account_data

text \<open>\<open>balance || 0\<close>.\<close>

fun balance_or_zero :: "ui_amount \<Rightarrow> number" where
  "balance_or_zero (Number n) = (if truthy_number n then n else Num 0)"
| "balance_or_zero _ = Num 0"

text \<open>
  The \<open>try\<close> block. \<open>query\<close> is \<open>connection.getParsedTokenAccountsByOwner\<close>, taking
  the owner and the mint of the filter; \<open>Inl\<close> is a rejected promise.
\<close>

definition getSPLBalance_try ::
  "(string \<Rightarrow> string \<Rightarrow> exn + token_account list) \<Rightarrow> string \<Rightarrow> string \<Rightarrow> exn + number" where
  "getSPLBalance_try query mint owner =
     (case query owner mint of
        Inl e \<Rightarrow> Inl e
      | Inr tokenAccounts \<Rightarrow>
          (case tokenAccounts of
             [] \<Rightarrow> Inr (Num 0)
           | acc # _ \<Rightarrow>
               (case account_data acc of
                  Unparsed \<Rightarrow>
                    Inl (Exn ''TypeError'' ''Cannot read properties of undefined'')
                | Parsed balance \<Rightarrow> Inr (balance_or_zero balance))))"

text \<open>The \<open>catch\<close> logs the error and returns 0.\<close>

definition getSPLBalance ::
  "(string \<Rightarrow> string \<Rightarrow> exn + token_account list) \<Rightarrow> string \<Rightarrow> string \<Rightarrow> exn + number" where
  "getSPLBalance query mint owner =
     (case getSPLBalance_try query mint owner of
        Inl error \<Rightarrow> Inr (Num 0)
      | Inr balance \<Rightarrow> Inr balance)"

definition query_fails :: "string \<Rightarrow> string \<Rightarrow> exn + token_account list" where
  "query_fails owner mint = Inl (Error ''failed to get token accounts'')"

definition query_const :: "token_account list \<Rightarrow> string \<Rightarrow> string \<Rightarrow> exn + token_account list" where
  "query_const accs owner mint = Inr accs"

definition account_null :: token_account where
  "account_null = \<lparr> pubkey = ''A'', account_data = Parsed Null \<rparr>"

definition account_seven :: token_account where
  "account_seven = \<lparr> pubkey = ''B'', account_data = Parsed (Number (Num 7)) \<rparr>"

definition account_unparsed :: token_account where
  "account_unparsed = \<lparr> pubkey = ''C'', account_data = Unparsed \<rparr>"


section \<open>External calls, exceptions and the trace of calls\<close>

datatype wallet_type = Trading | Test

record priority_fees =
  unitLimit :: int
  unitPrice :: int

record token_metadata =
  meta_name :: string
  meta_symbol :: string
  meta_description :: string
  meta_file :: string

text \<open>
  The SDK's \<open>TransactionResult\<close>: \<open>error\<close> is kept as the string it prints as
  (\<open>None\<close> for \<open>undefined\<close>); \<open>results\<close> is only printed.
\<close>

record tx_result =
  success :: bool
  signature :: "string option"
  tx_error :: "string option"

record bonding_curve =
  virtualTokenReserves :: int
  virtualSolReserves :: int
  realTokenReserves :: int
  realSolReserves :: int
  tokenTotalSupply :: int
  complete :: bool

text \<open>
  Every call that leaves the program (SDK, RPC connection, key generation, process
  exit) is recorded, with its arguments, in the order made. Keys are named by their
  base58 strings.
\<close>

datatype event =
    KeypairGenerate
  | NewConnection string string
  | NewPumpFunSDK string
  | GetBalance string
  | GetParsedTokenAccountsByOwner string string
  | SdkGetBondingCurveAccount string
  | SdkCreateAndBuy keypair keypair token_metadata int int
  | SdkBuy keypair string int int priority_fees
  | SdkSell keypair string int int
  | ConfirmTransaction string string
  | ProcessExit int

text \<open>A submission to the ledger: a transaction-sending call of the SDK.\<close>

fun is_submission :: "event \<Rightarrow> bool" where
  "is_submission (SdkCreateAndBuy a m t n b) = True"
| "is_submission (SdkBuy w m n b f) = True"
| "is_submission (SdkSell w m n b) = True"
| "is_submission _ = False"

fun is_SdkBuy :: "event \<Rightarrow> bool" where
  "is_SdkBuy (SdkBuy w m n b f) = True"
| "is_SdkBuy _ = False"

fun is_lookup :: "event \<Rightarrow> bool" where
  "is_lookup (SdkGetBondingCurveAccount m) = True"
| "is_lookup _ = False"

fun is_confirmation :: "event \<Rightarrow> bool" where
  "is_confirmation (ConfirmTransaction sig c) = True"
| "is_confirmation _ = False"

text \<open>
  The world outside the program. An answer may depend on the calls made so far (the
  trace at the time of the call) and on the arguments; \<open>Inl\<close> is a thrown error or a
  rejected promise. \<open>w_toLamports x\<close> is
  \<open>BigInt(Math.floor(x * LAMPORTS_PER_SOL))\<close>, a floating-point product kept abstract;
  \<open>w_newPublicKey\<close> is \<open>new PublicKey(address)\<close>; \<open>w_getBuyPrice\<close> and
  \<open>w_getSellPrice\<close> are the methods of the SDK's bonding-curve account.
\<close>

record world =
  w_fs :: fs_env
  w_process_env :: "string \<rightharpoonup> string"
  w_newPublicKey :: "string \<Rightarrow> exn + string"
  w_toLamports :: "number \<Rightarrow> exn + int"
  w_generate :: "event list \<Rightarrow> keypair"
  w_newConnection :: "event list \<Rightarrow> string \<Rightarrow> string \<Rightarrow> exn + unit"
  w_newPumpFunSDK :: "event list \<Rightarrow> string \<Rightarrow> exn + unit"
  w_getBalance :: "event list \<Rightarrow> string \<Rightarrow> exn + number"
  w_getParsedTokenAccountsByOwner ::
    "event list \<Rightarrow> string \<Rightarrow> string \<Rightarrow> exn + token_account list"
  w_getBondingCurveAccount :: "event list \<Rightarrow> string \<Rightarrow> exn + bonding_curve option"
  w_getBuyPrice :: "bonding_curve \<Rightarrow> int \<Rightarrow> exn + int"
  w_getSellPrice :: "bonding_curve \<Rightarrow> int \<Rightarrow> int \<Rightarrow> exn + int"
  w_createAndBuy ::
    "event list \<Rightarrow> keypair \<Rightarrow> keypair \<Rightarrow> token_metadata \<Rightarrow> int \<Rightarrow> int \<Rightarrow> exn + tx_result"
  w_buy ::
    "event list \<Rightarrow> keypair \<Rightarrow> string \<Rightarrow> int \<Rightarrow> int \<Rightarrow> priority_fees \<Rightarrow> exn + tx_result"
  w_sell :: "event list \<Rightarrow> keypair \<Rightarrow> string \<Rightarrow> int \<Rightarrow> int \<Rightarrow> exn + tx_result"
  w_confirmTransaction :: "event list \<Rightarrow> string \<Rightarrow> string \<Rightarrow> exn + string option"

text \<open>
  A computation takes the state (which holds the trace) and returns a value or a thrown
  error together with the new state. Console output is write-only and is not part of
  the state.
\<close>

record io_state =
  trace :: "event list"

type_synonym ('s, 'a) io = "'s \<Rightarrow> (exn + 'a) \<times> 's"

definition io_return :: "'a \<Rightarrow> ('s, 'a) io" where
  "io_return x = (\<lambda>s. (Inr x, s))"

definition io_throw :: "exn \<Rightarrow> ('s, 'a) io" where
  "io_throw e = (\<lambda>s. (Inl e, s))"

definition io_lift :: "exn + 'a \<Rightarrow> ('s, 'a) io" where
  "io_lift r = (\<lambda>s. (r, s))"

definition io_bind :: "('s, 'a) io \<Rightarrow> ('a \<Rightarrow> ('s, 'b) io) \<Rightarrow> ('s, 'b) io" where
  "io_bind m f = (\<lambda>s. case m s of (Inl e, s') \<Rightarrow> (Inl e, s') | (Inr x, s') \<Rightarrow> f x s')"

text \<open>\<open>try { m } catch (error) { h error }\<close>\<close>

definition io_catch :: "('s, 'a) io \<Rightarrow> (exn \<Rightarrow> ('s, 'a) io) \<Rightarrow> ('s, 'a) io" where
  "io_catch m h = (\<lambda>s. case m s of (Inl e, s') \<Rightarrow> h e s' | (Inr x, s') \<Rightarrow> (Inr x, s'))"

text \<open>Reading a field of the state (\<open>this.sdk\<close>) and assigning to it.\<close>

definition io_read :: "('s \<Rightarrow> 'a) \<Rightarrow> ('s, 'a) io" where
  "io_read field = (\<lambda>s. (Inr (field s), s))"

definition io_modify :: "('s \<Rightarrow> 's) \<Rightarrow> ('s, unit) io" where
  "io_modify g = (\<lambda>s. (Inr (), g s))"

text \<open>An external call: the answer is read at the current trace, then the call is recorded.\<close>

definition ext_call ::
  "event \<Rightarrow> (event list \<Rightarrow> exn + 'a) \<Rightarrow> ('z io_state_scheme, 'a) io" where
  "ext_call ev answer = (\<lambda>s. (answer (trace s), s\<lparr>trace := trace s @ [ev]\<rparr>))"

text \<open>
  \<open>BigInt(n)\<close> of a number: a \<open>RangeError\<close> unless \<open>n\<close> is an integer. The
  message of the real error also spells out the number; that part is left out.
\<close>

fun BigInt :: "number \<Rightarrow> exn + int" where
  "BigInt (Num r) =
     (if of_int \<lfloor>r\<rfloor> = r then Inr \<lfloor>r\<rfloor>
      else Inl (Exn ''RangeError'' ''The number cannot be converted to a BigInt because it is not an integer''))"
| "BigInt _ =
     Inl (Exn ''RangeError'' ''The number cannot be converted to a BigInt because it is not an integer'')"


section \<open>example/util and example/basic\<close>

text \<open>\<open>printSPLBalance\<close>: reads the balance, prints it, and swallows every error.\<close>

definition printSPLBalance :: "world \<Rightarrow> string \<Rightarrow> string \<Rightarrow> ('z io_state_scheme, unit) io" where
  "printSPLBalance W mint owner =
     io_catch
       (io_bind
          (ext_call (GetParsedTokenAccountsByOwner owner mint)
             (\<lambda>tr. getSPLBalance (w_getParsedTokenAccountsByOwner W tr) mint owner))
          (\<lambda>balance. io_return ()))
       (\<lambda>error. io_return ())"

definition SLIPPAGE_BASIS_POINTS :: int where
  "SLIPPAGE_BASIS_POINTS = 100"

text \<open>
  \<open>BigInt(0.0001 * LAMPORTS_PER_SOL)\<close>: the double product of 0.0001 and 1000000000 is
  exactly 100000, so the conversion succeeds.
\<close>

definition BUY_AMOUNT_LAMPORTS :: int where
  "BUY_AMOUNT_LAMPORTS = 100000"

definition TEMP_BUY_metadata :: token_metadata where
  "TEMP_BUY_metadata =
     \<lparr> meta_name = ''TEMP-BUY'', meta_symbol = ''TEMP'',
       meta_description = ''Temporary token for buying'', meta_file = ''Temp token'' \<rparr>"

text \<open>
  \<open>buyTokens(sdk, testAccount, mint)\<close> of the basic example. The parameter \<open>mint\<close> is
  only printed.
\<close>

definition buyTokens :: "world \<Rightarrow> keypair \<Rightarrow> keypair \<Rightarrow> ('z io_state_scheme, unit) io" where
  "buyTokens W testAccount mint =
     io_catch
       (io_bind (ext_call KeypairGenerate (\<lambda>tr. Inr (w_generate W tr))) (\<lambda>tempMint.
        io_bind
          (ext_call
             (SdkCreateAndBuy testAccount tempMint TEMP_BUY_metadata
                BUY_AMOUNT_LAMPORTS SLIPPAGE_BASIS_POINTS)
             (\<lambda>tr. w_createAndBuy W tr testAccount tempMint TEMP_BUY_metadata
                      BUY_AMOUNT_LAMPORTS SLIPPAGE_BASIS_POINTS))
          (\<lambda>createResults.
             if success createResults
             then io_bind (printSPLBalance W (publicKey tempMint) (publicKey testAccount)) (\<lambda>_.
                  io_bind
                    (ext_call (SdkGetBondingCurveAccount (publicKey tempMint))
                       (\<lambda>tr. w_getBondingCurveAccount W tr (publicKey tempMint)))
                    (\<lambda>bondingCurveAccount. io_return ()))
             else io_return ())))
       (\<lambda>error. io_return ())"


section \<open>utils/provider: ProviderManager\<close>

record ProviderConfig =
  rpcUrl :: string
  commitment :: string
  priorityFee :: "number option"

text \<open>The constructor without arguments: the configuration comes from the environment.\<close>

definition ProviderManager_new :: "world \<Rightarrow> ProviderConfig" where
  "ProviderManager_new W =
     \<lparr> rpcUrl = getDevnetRpcUrl (w_process_env W),
       commitment = js_or_default (w_process_env W ''COMMITMENT'') SETTINGS_DEFAULT_COMMITMENT,
       priorityFee =
         (case w_process_env W ''PRIORITY_FEE'' of
            None \<Rightarrow> None
          | Some v \<Rightarrow> if v \<noteq> [] then Some (parseInt (w_fs W) v) else None) \<rparr>"

text \<open>\<open>createProvider\<close>: \<open>new Connection(rpcUrl, {commitment})\<close> may throw.\<close>

definition createProvider :: "world \<Rightarrow> ProviderConfig \<Rightarrow> ('z io_state_scheme, unit) io" where
  "createProvider W cfg =
     ext_call (NewConnection (rpcUrl cfg) (commitment cfg))
       (\<lambda>tr. w_newConnection W tr (rpcUrl cfg) (commitment cfg))"


section \<open>buy-tokens: TokenBuyer\<close>

record BuyTokensConfig =
  mintAddress :: string
  buyAmountSol :: number
  slippageBasisPoints :: "number option"
  walletType :: "wallet_type option"

text \<open>
  The object state: the wallet directory of its \<open>WalletManager\<close>, the configuration
  of its \<open>ProviderManager\<close>, and \<open>this.sdk\<close> (\<open>None\<close> for \<open>null\<close>; an SDK object is
  named by the public key of the wallet it was built for).
\<close>

record tb_state = io_state +
  this_walletsDir :: string
  this_config :: ProviderConfig
  this_sdk :: "string option"

type_synonym 'a tb = "(tb_state, 'a) io"

text \<open>\<open>new TokenBuyer()\<close>, made when the trace is \<open>tr\<close>.\<close>

definition TokenBuyer_new :: "world \<Rightarrow> event list \<Rightarrow> tb_state" where
  "TokenBuyer_new W tr =
     \<lparr> trace = tr, this_walletsDir = ''./wallets'', this_config = ProviderManager_new W,
       this_sdk = None \<rparr>"

text \<open>
  \<open>walletType === "trading" ? this.walletManager.loadTradingWallet()
  : this.walletManager.loadTestWallet()\<close>
\<close>

definition loadWallet :: "world \<Rightarrow> wallet_type \<Rightarrow> keypair tb" where
  "loadWallet W t =
     io_bind (io_read this_walletsDir) (\<lambda>walletsDir.
     io_lift (if t = Trading then loadTradingWallet (w_fs W) walletsDir
              else loadTestWallet (w_fs W) walletsDir))"

definition listWallets :: "world \<Rightarrow> unit tb" where
  "listWallets W =
     io_bind (io_read this_walletsDir) (\<lambda>walletsDir.
     io_bind (io_lift (listAvailableWallets (w_fs W) walletsDir)) (\<lambda>wallets.
     io_return ()))"

definition checkWalletBalance :: "world \<Rightarrow> keypair \<Rightarrow> unit tb" where
  "checkWalletBalance W wallet =
     io_bind (io_read this_sdk) (\<lambda>sdk.
       case sdk of
         None \<Rightarrow> io_throw (Error ''SDK not initialized'')
       | Some k \<Rightarrow>
           io_bind
             (ext_call (GetBalance (publicKey wallet))
                (\<lambda>tr. w_getBalance W tr (publicKey wallet)))
             (\<lambda>balance. io_return ()))"

definition initializeSDK :: "world \<Rightarrow> wallet_type \<Rightarrow> unit tb" where
  "initializeSDK W t =
     io_catch
       (io_bind (loadWallet W t) (\<lambda>wallet.
        io_bind (io_bind (io_read this_config) (createProvider W)) (\<lambda>provider.
        io_bind
          (ext_call (NewPumpFunSDK (publicKey wallet))
             (\<lambda>tr. w_newPumpFunSDK W tr (publicKey wallet)))
          (\<lambda>sdk.
        io_bind (io_modify (\<lambda>s. s\<lparr>this_sdk := Some (publicKey wallet)\<rparr>)) (\<lambda>_.
        checkWalletBalance W wallet)))))
       (\<lambda>error. io_throw error)"

definition getTokenInfo_try :: "world \<Rightarrow> string \<Rightarrow> unit tb" where
  "getTokenInfo_try W address =
     io_bind (io_lift (w_newPublicKey W address)) (\<lambda>mint.
     io_bind
       (ext_call (SdkGetBondingCurveAccount mint) (\<lambda>tr. w_getBondingCurveAccount W tr mint))
       (\<lambda>bondingCurveAccount.
          case bondingCurveAccount of
            Some account \<Rightarrow>
              io_bind (io_lift (w_getBuyPrice W account 1000)) (\<lambda>buyPrice.
              io_bind (io_lift (w_getSellPrice W account 1000 100)) (\<lambda>sellPrice.
              io_return ()))
          | None \<Rightarrow> io_return ()))"

definition getTokenInfo :: "world \<Rightarrow> string \<Rightarrow> unit tb" where
  "getTokenInfo W address =
     io_bind (io_read this_sdk) (\<lambda>sdk.
       case sdk of
         None \<Rightarrow> io_throw (Error ''SDK not initialized'')
       | Some k \<Rightarrow> io_catch (getTokenInfo_try W address) (\<lambda>error. io_throw error))"

definition PRIORITY_FEES :: priority_fees where
  "PRIORITY_FEES = \<lparr> unitLimit = 250000, unitPrice = 250000 \<rparr>"

text \<open>\<open>slippageBasisPoints = 500\<close> and \<open>walletType = "trading"\<close> of the destructuring.\<close>

definition slippage_of :: "BuyTokensConfig \<Rightarrow> number" where
  "slippage_of config =
     (case slippageBasisPoints config of None \<Rightarrow> Num 500 | Some n \<Rightarrow> n)"

definition walletType_of :: "BuyTokensConfig \<Rightarrow> wallet_type" where
  "walletType_of config = (case walletType config of None \<Rightarrow> Trading | Some t \<Rightarrow> t)"

text \<open>
  The \<open>try\<close> block of \<open>TokenBuyer.buyTokens\<close> in two parts. The first runs up to
  the evaluation of the arguments of \<open>this.sdk.buy\<close> and yields them: the wallet, the
  mint, the amount in lamports and \<open>BigInt(slippageBasisPoints)\<close>.
\<close>

definition buyTokens_prepare ::
  "world \<Rightarrow> BuyTokensConfig \<Rightarrow> (keypair \<times> string \<times> int \<times> int) tb" where
  "buyTokens_prepare W config =
     io_bind (loadWallet W (walletType_of config)) (\<lambda>wallet.
     io_bind (io_lift (w_newPublicKey W (mintAddress config))) (\<lambda>mint.
     io_bind (io_lift (w_toLamports W (buyAmountSol config))) (\<lambda>buyAmountLamports.
     io_bind (getTokenInfo W (mintAddress config)) (\<lambda>_.
     io_bind
       (ext_call (SdkGetBondingCurveAccount mint) (\<lambda>tr. w_getBondingCurveAccount W tr mint))
       (\<lambda>bondingCurveAccount.
          case bondingCurveAccount of
            None \<Rightarrow> io_throw (Error ''Token not found on Pump.fun. Cannot buy.'')
          | Some account \<Rightarrow>
              io_bind (io_lift (BigInt (slippage_of config))) (\<lambda>slippage.
              io_return (wallet, mint, buyAmountLamports, slippage)))))))"

text \<open>The second part: the call of \<open>this.sdk.buy\<close> and everything after it.\<close>

definition buyTokens_submit ::
  "world \<Rightarrow> BuyTokensConfig \<Rightarrow> keypair \<times> string \<times> int \<times> int \<Rightarrow> unit tb" where
  "buyTokens_submit W config args =
     (case args of (wallet, mint, buyAmountLamports, slippage) \<Rightarrow>
        io_bind
          (ext_call (SdkBuy wallet mint buyAmountLamports slippage PRIORITY_FEES)
             (\<lambda>tr. w_buy W tr wallet mint buyAmountLamports slippage PRIORITY_FEES))
          (\<lambda>result.
             if \<not> success result
             then io_throw
                    (Error (''Buy failed: '' @ js_or_default (tx_error result) ''Unknown error''))
             else
               io_bind
                 (ext_call
                    (ConfirmTransaction (js_or_default (signature result) []) ''confirmed'')
                    (\<lambda>tr. w_confirmTransaction W tr (js_or_default (signature result) [])
                             ''confirmed''))
                 (\<lambda>err.
                    case err of
                      None \<Rightarrow> getTokenInfo W (mintAddress config)
                    | Some e \<Rightarrow>
                        if e \<noteq> [] then io_throw (Error (''Transaction failed: '' @ e))
                        else getTokenInfo W (mintAddress config))))"

definition TokenBuyer_buyTokens :: "world \<Rightarrow> BuyTokensConfig \<Rightarrow> unit tb" where
  "TokenBuyer_buyTokens W config =
     io_bind (io_read this_sdk) (\<lambda>sdk.
       case sdk of
         None \<Rightarrow> io_throw (Error ''SDK not initialized'')
       | Some k \<Rightarrow>
           io_catch (io_bind (buyTokens_prepare W config) (buyTokens_submit W config))
             (\<lambda>error. io_throw error))"

definition sellTokens_try :: "world \<Rightarrow> string \<Rightarrow> int \<Rightarrow> wallet_type \<Rightarrow> unit tb" where
  "sellTokens_try W address sellAmount t =
     io_bind (loadWallet W t) (\<lambda>wallet.
     io_bind (io_lift (w_newPublicKey W address)) (\<lambda>mint.
     io_bind
       (ext_call (SdkSell wallet mint sellAmount 500)
          (\<lambda>tr. w_sell W tr wallet mint sellAmount 500))
       (\<lambda>result.
          if \<not> success result
          then io_throw
                 (Error (''Sell failed: '' @ js_or_default (tx_error result) ''Unknown error''))
          else
            io_bind
              (ext_call (ConfirmTransaction (js_or_default (signature result) []) ''confirmed'')
                 (\<lambda>tr. w_confirmTransaction W tr (js_or_default (signature result) [])
                          ''confirmed''))
              (\<lambda>err.
                 case err of
                   None \<Rightarrow> io_return ()
                 | Some e \<Rightarrow>
                     if e \<noteq> [] then io_throw (Error (''Transaction failed: '' @ e))
                     else io_return ()))))"

definition TokenBuyer_sellTokens :: "world \<Rightarrow> string \<Rightarrow> int \<Rightarrow> wallet_type \<Rightarrow> unit tb" where
  "TokenBuyer_sellTokens W address sellAmount t =
     io_bind (io_read this_sdk) (\<lambda>sdk.
       case sdk of
         None \<Rightarrow> io_throw (Error ''SDK not initialized'')
       | Some k \<Rightarrow>
           io_catch (sellTokens_try W address sellAmount t) (\<lambda>error. io_throw error))"

text \<open>
  \<open>main\<close> of buy-tokens. It ends either by returning or, from its \<open>catch\<close>, by
  \<open>process.exit(1)\<close>.
\<close>

datatype exit_status = Completed | Exited int

definition main_buyConfig :: BuyTokensConfig where
  "main_buyConfig =
     \<lparr> mintAddress = ''7vS7ViHrrMSx19kG95k1KKDFDdq3YTBZNJrDwhPTTj9v'',
       buyAmountSol = Num (1 / 10000),
       slippageBasisPoints = Some (Num 500),
       walletType = Some Trading \<rparr>"

definition main_try :: "world \<Rightarrow> unit tb" where
  "main_try W =
     io_bind (listWallets W) (\<lambda>_.
     io_bind (initializeSDK W Trading) (\<lambda>_.
     TokenBuyer_buyTokens W main_buyConfig))"

definition main :: "world \<Rightarrow> event list \<Rightarrow> exit_status \<times> event list" where
  "main W tr =
     (case main_try W (TokenBuyer_new W tr) of
        (Inr u, s) \<Rightarrow> (Completed, trace s)
      | (Inl error, s) \<Rightarrow> (Exited 1, trace s @ [ProcessExit 1]))"

text \<open>
  \<open>io_post m s Q\<close>: the result and the final state of running \<open>m\<close> from \<open>s\<close>
  satisfy \<open>Q\<close>.
\<close>

definition io_post :: "('s, 'a) io \<Rightarrow> 's \<Rightarrow> ((exn + 'a) \<Rightarrow> 's \<Rightarrow> bool) \<Rightarrow> bool" where
  "io_post m s Q = Q (fst (m s)) (snd (m s))"


section \<open>Concrete worlds\<close>

definition demo_curve :: bonding_curve where
  "demo_curve =
     \<lparr> virtualTokenReserves = 30000000, virtualSolReserves = 1000000000,
       realTokenReserves = 20000000, realSolReserves = 0, tokenTotalSupply = 30000000,
       complete = False \<rparr>"

definition ok_result :: tx_result where
  "ok_result = \<lparr> success = True, signature = Some ''sig'', tx_error = None \<rparr>"

text \<open>
  The mint address of the script's own configuration, the only address the concrete
  worlds accept as a public key.
\<close>

definition demo_mint :: string where
  "demo_mint = ''7vS7ViHrrMSx19kG95k1KKDFDdq3YTBZNJrDwhPTTj9v''"

definition demo_newPublicKey :: "string \<Rightarrow> exn + string" where
  "demo_newPublicKey address =
     (if address = demo_mint then Inr address else Inl (Error ''Invalid public key input''))"

text \<open>
  The conversion to lamports in the concrete worlds is a table with one entry, the
  amount of every concrete run: the double product of 0.0001 and 1000000000 is exactly
  100000. No floating-point product is computed; any other amount is refused.
\<close>

definition demo_toLamports :: "number \<Rightarrow> exn + int" where
  "demo_toLamports x =
     (if x = Num (1 / 10000) then Inr 100000
      else Inl (Exn ''RangeError'' ''amount outside the table''))"

text \<open>
  A world with a wallet file, in which every call succeeds; the token exists when
  \<open>listed\<close> holds.
\<close>

definition world_with :: "bool \<Rightarrow> world" where
  "world_with listed =
     \<lparr> w_fs = fs_good,
       w_process_env = env_unset,
       w_newPublicKey = demo_newPublicKey,
       w_toLamports = demo_toLamports,
       w_generate = (\<lambda>tr. \<lparr> publicKey = ''TMP'', secretKey = [] \<rparr>),
       w_newConnection = (\<lambda>tr url c. Inr ()),
       w_newPumpFunSDK = (\<lambda>tr k. Inr ()),
       w_getBalance = (\<lambda>tr k. Inr (Num 1000000000)),
       w_getParsedTokenAccountsByOwner = (\<lambda>tr owner mint. Inr [account_seven]),
       w_getBondingCurveAccount = (\<lambda>tr m. Inr (if listed then Some demo_curve else None)),
       w_getBuyPrice = (\<lambda>c n. Inr 1),
       w_getSellPrice = (\<lambda>c n f. Inr 1),
       w_createAndBuy = (\<lambda>tr a m t n b. Inr ok_result),
       w_buy = (\<lambda>tr w m n b f. Inr ok_result),
       w_sell = (\<lambda>tr w m n b. Inr ok_result),
       w_confirmTransaction = (\<lambda>tr sig c. Inr None) \<rparr>"

definition world_ok :: world where
  "world_ok = world_with True"

definition world_no_token :: world where
  "world_no_token = world_with False"

text \<open>As \<open>world_ok\<close>, but the confirmation is never observed: the wait times out.\<close>

definition world_timeout :: world where
  "world_timeout =
     world_ok\<lparr> w_confirmTransaction :=
       (\<lambda>tr sig c. Inl (Exn ''TransactionExpiredTimeoutError''
                             ''Transaction was not confirmed in 30.00 seconds'')) \<rparr>"

text \<open>As \<open>world_ok\<close>, but without any wallet file or wallet directory.\<close>

definition world_no_wallet :: world where
  "world_no_wallet = world_ok\<lparr> w_fs := fs_none \<rparr>"

text \<open>As \<open>world_ok\<close>, but the wallet directory cannot be listed.\<close>

definition world_unreadable :: world where
  "world_unreadable =
     world_ok\<lparr> w_fs := fs_good\<lparr> readdirSync :=
       (\<lambda>p. Inl (Error ''EACCES: permission denied, scandir'')) \<rparr> \<rparr>"

text \<open>A buyer whose SDK is initialised for the demo wallet, with an empty trace.\<close>

definition buyer_ready :: tb_state where
  "buyer_ready =
     \<lparr> trace = [], this_walletsDir = ''./wallets'',
       this_config = \<lparr> rpcUrl = ''https://api.devnet.solana.com'', commitment = ''confirmed'',
                       priorityFee = None \<rparr>,
       this_sdk = Some ''PK'' \<rparr>"

definition config_20000 :: BuyTokensConfig where
  "config_20000 =
     \<lparr> mintAddress = ''7vS7ViHrrMSx19kG95k1KKDFDdq3YTBZNJrDwhPTTj9v'',
       buyAmountSol = Num (1 / 10000),
       slippageBasisPoints = Some (Num 20000), walletType = Some Trading \<rparr>"

definition config_half :: BuyTokensConfig where
  "config_half =
     \<lparr> mintAddress = ''7vS7ViHrrMSx19kG95k1KKDFDdq3YTBZNJrDwhPTTj9v'',
       buyAmountSol = Num (1 / 10000),
       slippageBasisPoints = Some (Num (1 / 2)), walletType = Some Trading \<rparr>"

text \<open>The buyer after one successful execution of \<open>buyTokens\<close> in \<open>world_ok\<close>.\<close>

definition buyer_after_buy :: tb_state where
  "buyer_after_buy = snd (TokenBuyer_buyTokens world_ok main_buyConfig buyer_ready)"

definition io_empty :: io_state where
  "io_empty = \<lparr> trace = [] \<rparr>"



section \<open>Slippage floor of the price model\<close>

text \<open>
  Modelled from the spec: the price model's \<open>minAcceptable(expectedOutput, slippageBps)\<close>
  is not in the sources (the scripts hand the tolerance to the external SDK). The spec
  gives it as floor = expected \<times> (1 \<minus> slippageBps/10000) in integer arithmetic:
  one multiplication by the complement of the tolerance and one integer division.
\<close>

definition minAcceptable :: "int \<Rightarrow> int \<Rightarrow> int" where
  "minAcceptable expectedOutput slippageBps =
     expectedOutput * (10000 - slippageBps) div 10000"


section \<open>Properties\<close>

subsection \<open>getDevnetRpcUrl\<close>

text \<open>
  C8, as stated, fails where a variable is set to the empty string: with
  \<open>DEVNET_RPC_URL\<close> set to \<open>""\<close> and nothing else set, the function returns the
  default endpoint and not the value of the variable.
\<close>

theorem getDevnetRpcUrl_blank_counterexample:
  "env_blank_devnet ''DEVNET_RPC_URL'' = Some []
   \<and> getDevnetRpcUrl env_blank_devnet = ''https://api.devnet.solana.com''
   \<and> getDevnetRpcUrl env_blank_devnet \<noteq> []"
  by (simp add: env_blank_devnet_def getDevnetRpcUrl_def js_or_def RPC_ENDPOINTS_DEFAULT_def)

text \<open>
  C8 (amended): \<open>getDevnetRpcUrl\<close> is a three-way fallback on non-empty values. It
  returns \<open>DEVNET_RPC_URL\<close> when that is set to a non-empty string, otherwise
  \<open>HELIUS_DEVNET_RPC_URL\<close> when that is set to a non-empty string, otherwise the
  constant \<open>https://api.devnet.solana.com\<close>. It is a total function of the
  environment: no branch throws.
\<close>

theorem getDevnetRpcUrl_fallback:
  "(\<forall>v. env ''DEVNET_RPC_URL'' = Some v \<and> v \<noteq> [] \<longrightarrow> getDevnetRpcUrl env = v)
   \<and> (\<forall>v. \<not> truthy_str (env ''DEVNET_RPC_URL'')
          \<and> env ''HELIUS_DEVNET_RPC_URL'' = Some v \<and> v \<noteq> [] \<longrightarrow> getDevnetRpcUrl env = v)
   \<and> (\<not> truthy_str (env ''DEVNET_RPC_URL'') \<and> \<not> truthy_str (env ''HELIUS_DEVNET_RPC_URL'')
        \<longrightarrow> getDevnetRpcUrl env = ''https://api.devnet.solana.com'')"
proof (intro conjI allI impI)
  fix v assume "env ''DEVNET_RPC_URL'' = Some v \<and> v \<noteq> []"
  then show "getDevnetRpcUrl env = v"
    by (simp add: getDevnetRpcUrl_def js_or_def)
next
  fix v
  assume "\<not> truthy_str (env ''DEVNET_RPC_URL'')
          \<and> env ''HELIUS_DEVNET_RPC_URL'' = Some v \<and> v \<noteq> []"
  then show "getDevnetRpcUrl env = v"
    by (simp add: getDevnetRpcUrl_def js_or_def)
next
  assume h: "\<not> truthy_str (env ''DEVNET_RPC_URL'') \<and> \<not> truthy_str (env ''HELIUS_DEVNET_RPC_URL'')"
  show "getDevnetRpcUrl env = ''https://api.devnet.solana.com''"
  proof (cases "env ''HELIUS_DEVNET_RPC_URL''")
    case None
    with h show ?thesis
      by (simp add: getDevnetRpcUrl_def js_or_def RPC_ENDPOINTS_DEFAULT_def)
  next
    case (Some s)
    with h show ?thesis
      by (simp add: getDevnetRpcUrl_def js_or_def RPC_ENDPOINTS_DEFAULT_def)
  qed
qed

theorem getDevnetRpcUrl_fallback_witness:
  "getDevnetRpcUrl env_devnet = ''http://a''
   \<and> getDevnetRpcUrl env_helius = ''http://h''
   \<and> getDevnetRpcUrl env_unset = ''https://api.devnet.solana.com''"
proof -
  have a: "getDevnetRpcUrl env_devnet = ''http://a''"
    using getDevnetRpcUrl_fallback [of env_devnet] by (simp add: env_devnet_def)
  have b: "getDevnetRpcUrl env_helius = ''http://h''"
    using getDevnetRpcUrl_fallback [of env_helius] by (simp add: env_helius_def)
  have c: "getDevnetRpcUrl env_unset = ''https://api.devnet.solana.com''"
    using getDevnetRpcUrl_fallback [of env_unset] by (simp add: env_unset_def)
  from a b c show ?thesis by simp
qed


subsection \<open>WalletManager.loadWalletFromFile\<close>

lemma not_array_of_64_iff:
  "not_array_of_64 j \<longleftrightarrow> \<not> (\<exists>xs. j = JArray xs \<and> length xs = 64)"
  by (cases j) auto

lemma loadWalletFromFile_Inr:
  assumes "loadWalletFromFile E d f = Inr kp"
  shows "existsSync E (path_join E d f)
         \<and> (\<exists>data xs. readFileSync E (path_join E d f) = Inr data
                       \<and> JSON_parse E data = Inr (JArray xs) \<and> length xs = 64)"
  using assms
  by (auto simp: loadWalletFromFile_def loadWalletFromFile_try_def Let_def not_array_of_64_iff
           split: if_splits sum.splits)

lemma loadWalletFromFile_missing:
  assumes "\<not> existsSync E (path_join E d f)"
  shows "loadWalletFromFile E d f = Inl (Error (''Wallet file not found: '' @ path_join E d f))"
  using assms by (simp add: loadWalletFromFile_def Let_def)

lemma loadWalletFromFile_wrapped:
  assumes "existsSync E (path_join E d f)"
    and "\<not> (\<exists>data xs. readFileSync E (path_join E d f) = Inr data
                       \<and> JSON_parse E data = Inr (JArray xs) \<and> length xs = 64)"
  shows "\<exists>msg. loadWalletFromFile E d f
               = Inl (Error (''Failed to load wallet from '' @ f @ '': '' @ msg))"
  using assms
  by (auto simp: loadWalletFromFile_def loadWalletFromFile_try_def Let_def not_array_of_64_iff
           split: if_splits sum.splits)

text \<open>
  C9: \<open>loadWalletFromFile\<close> returns a keypair only when the named file exists and its
  content parses to a JSON array of exactly 64 elements. When the file is missing it
  throws \<open>Wallet file not found: <path>\<close>; when the file exists and is anything else
  (unreadable, unparseable, not an array, wrong length) it throws an error whose
  message starts with \<open>Failed to load wallet from <filename>: \<close>. In both cases no
  keypair is returned.
\<close>

theorem loadWalletFromFile_outcomes:
  "(\<forall>kp. loadWalletFromFile E d f = Inr kp \<longrightarrow>
        existsSync E (path_join E d f)
        \<and> (\<exists>data xs. readFileSync E (path_join E d f) = Inr data
                      \<and> JSON_parse E data = Inr (JArray xs) \<and> length xs = 64))
   \<and> (\<not> existsSync E (path_join E d f) \<longrightarrow>
        loadWalletFromFile E d f
        = Inl (Error (''Wallet file not found: '' @ path_join E d f)))
   \<and> (existsSync E (path_join E d f)
        \<and> \<not> (\<exists>data xs. readFileSync E (path_join E d f) = Inr data
                        \<and> JSON_parse E data = Inr (JArray xs) \<and> length xs = 64) \<longrightarrow>
        (\<exists>msg. loadWalletFromFile E d f
                = Inl (Error (''Failed to load wallet from '' @ f @ '': '' @ msg))))"
  using loadWalletFromFile_Inr loadWalletFromFile_missing loadWalletFromFile_wrapped
  by blast

lemma fs_good_loads: "loadWalletFromFile fs_good ''w'' ''k.json'' = Inr demo_keypair"
  by (simp add: loadWalletFromFile_def loadWalletFromFile_try_def fs_good_def fs_with_def)

lemma fs_short_parse:
  "\<not> (\<exists>data xs. readFileSync fs_short (path_join fs_short ''w'' ''k.json'') = Inr data
                 \<and> JSON_parse fs_short data = Inr (JArray xs) \<and> length xs = 64)"
  by (simp add: fs_short_def fs_with_def)

theorem loadWalletFromFile_outcomes_witness:
  "loadWalletFromFile fs_good ''w'' ''k.json'' = Inr demo_keypair
   \<and> existsSync fs_good ''w/k.json''
   \<and> JSON_parse fs_good ''data'' = Inr (JArray (replicate 64 (JNumber (Num 0))))
   \<and> loadWalletFromFile fs_none ''w'' ''k.json''
       = Inl (Error ''Wallet file not found: w/k.json'')
   \<and> (\<exists>msg. loadWalletFromFile fs_short ''w'' ''k.json''
              = Inl (Error (''Failed to load wallet from k.json: '' @ msg)))"
proof -
  have good: "existsSync fs_good ''w/k.json''
              \<and> JSON_parse fs_good ''data'' = Inr (JArray (replicate 64 (JNumber (Num 0))))"
    using loadWalletFromFile_outcomes [of fs_good "''w''" "''k.json''"] fs_good_loads
    by (simp add: fs_good_def fs_with_def)
  have none: "loadWalletFromFile fs_none ''w'' ''k.json''
              = Inl (Error ''Wallet file not found: w/k.json'')"
    using loadWalletFromFile_outcomes [of fs_none "''w''" "''k.json''"]
    by (simp add: fs_none_def fs_with_def)
  have ex: "existsSync fs_short (path_join fs_short ''w'' ''k.json'')"
    by (simp add: fs_short_def fs_with_def)
  have short: "\<exists>msg. loadWalletFromFile fs_short ''w'' ''k.json''
                     = Inl (Error (''Failed to load wallet from k.json: '' @ msg))"
    using loadWalletFromFile_outcomes [of fs_short "''w''" "''k.json''"] ex fs_short_parse
    by simp
  from fs_good_loads good none short show ?thesis by blast
qed


subsection \<open>getSPLBalance\<close>

text \<open>
  C10: \<open>getSPLBalance\<close> never rejects: for every behaviour of the query, every mint
  and every owner it resolves to a number. The number is 0 when the owner has no token
  account for the mint, when the first account's \<open>uiAmount\<close> is \<open>null\<close> or
  \<open>undefined\<close>, and when the query throws (or reading the amount throws).
\<close>

theorem getSPLBalance_total:
  "(\<exists>n. getSPLBalance query mint owner = Inr n)
   \<and> (query owner mint = Inr [] \<longrightarrow> getSPLBalance query mint owner = Inr (Num 0))
   \<and> (\<forall>acc rest. query owner mint = Inr (acc # rest)
                   \<and> (account_data acc = Parsed Null \<or> account_data acc = Parsed Undefined
                      \<or> account_data acc = Unparsed)
                   \<longrightarrow> getSPLBalance query mint owner = Inr (Num 0))
   \<and> (\<forall>e. query owner mint = Inl e \<longrightarrow> getSPLBalance query mint owner = Inr (Num 0))"
  by (auto simp: getSPLBalance_def getSPLBalance_try_def
           split: sum.splits list.splits account_data.splits)

theorem getSPLBalance_total_witness:
  "getSPLBalance (query_const []) ''M'' ''O'' = Inr (Num 0)
   \<and> getSPLBalance (query_const [account_null, account_seven]) ''M'' ''O'' = Inr (Num 0)
   \<and> getSPLBalance (query_const [account_unparsed]) ''M'' ''O'' = Inr (Num 0)
   \<and> getSPLBalance query_fails ''M'' ''O'' = Inr (Num 0)
   \<and> (\<exists>n. getSPLBalance (query_const [account_seven]) ''M'' ''O'' = Inr n)"
proof -
  have a: "getSPLBalance (query_const []) ''M'' ''O'' = Inr (Num 0)"
    using getSPLBalance_total [of "query_const []" "''M''" "''O''"]
    by (simp add: query_const_def)
  have b: "getSPLBalance (query_const [account_null, account_seven]) ''M'' ''O'' = Inr (Num 0)"
    using getSPLBalance_total [of "query_const [account_null, account_seven]" "''M''" "''O''"]
    by (simp add: query_const_def account_null_def)
  have b': "getSPLBalance (query_const [account_unparsed]) ''M'' ''O'' = Inr (Num 0)"
    using getSPLBalance_total [of "query_const [account_unparsed]" "''M''" "''O''"]
    by (simp add: query_const_def account_unparsed_def)
  have c: "getSPLBalance query_fails ''M'' ''O'' = Inr (Num 0)"
    using getSPLBalance_total [of query_fails "''M''" "''O''"]
    by (simp add: query_fails_def)
  have d: "\<exists>n. getSPLBalance (query_const [account_seven]) ''M'' ''O'' = Inr n"
    using getSPLBalance_total [of "query_const [account_seven]" "''M''" "''O''"]
    by blast
  from a b b' c d show ?thesis by blast
qed


subsection \<open>Slippage floor\<close>

lemma minAcceptable_le:
  assumes "0 \<le> expected" and "0 \<le> bps"
  shows "minAcceptable expected bps \<le> expected"
proof -
  have "expected * (10000 - bps) \<le> expected * 10000"
    using assms by (intro mult_left_mono) auto
  then have "expected * (10000 - bps) div 10000 \<le> expected * 10000 div 10000"
    by (rule zdiv_mono1) simp
  then show ?thesis by (simp add: minAcceptable_def)
qed

lemma minAcceptable_remainder:
  "expected * (10000 - bps) - 10000 * minAcceptable expected bps
   = expected * (10000 - bps) mod 10000"
  by (simp add: minAcceptable_def minus_mult_div_eq_mod)

text \<open>
  C5: the floor is expected \<times> (10000 \<minus> slippageBps) div 10000, computed on integers.
  For every expected output \<open>\<ge> 0\<close> and every tolerance in [0, 10000] the floor is
  at most the expected output, and it is the exact value expected \<times> (1 \<minus>
  slippageBps/10000) rounded down: the exact value exceeds the floor by less than one
  unit. This holds for every expected output, so also for the one quoted at reserves
  (30000000, 1000000000) for 1000000 in at 500 basis points.
\<close>

theorem minAcceptable_floor:
  assumes "0 \<le> expected" and "0 \<le> bps" and "bps \<le> 10000"
  shows "minAcceptable expected bps \<le> expected
         \<and> 0 \<le> minAcceptable expected bps
         \<and> 0 \<le> expected * (10000 - bps) - 10000 * minAcceptable expected bps
         \<and> expected * (10000 - bps) - 10000 * minAcceptable expected bps < 10000"
proof -
  have nonneg: "0 \<le> expected * (10000 - bps)"
    using assms by simp
  then have "0 \<le> minAcceptable expected bps"
    by (simp add: minAcceptable_def pos_imp_zdiv_nonneg_iff)
  moreover have "0 \<le> expected * (10000 - bps) mod 10000"
    and "expected * (10000 - bps) mod 10000 < 10000"
    by simp_all
  ultimately show ?thesis
    using minAcceptable_le [OF assms(1,2)] minAcceptable_remainder [of expected bps]
    by simp
qed

text \<open>
  At the spec's example the constant-product quote is
  30000000 \<times> 1000000 div 1001000000 = 29970, whose floor at 500 basis points is
  28471 (the exact haircut is 28471.5).
\<close>

theorem minAcceptable_floor_witness:
  "(0::int) \<le> 29970 \<and> (0::int) \<le> 500 \<and> (500::int) \<le> 10000
   \<and> minAcceptable 29970 500 = 28471
   \<and> minAcceptable 29970 500 \<le> 29970
   \<and> 29970 * (10000 - 500) - 10000 * minAcceptable 29970 500 < (10000::int)"
  using minAcceptable_floor [of 29970 500] by (simp add: minAcceptable_def)


subsection \<open>Rules for running computations\<close>

lemma io_post_return [simp]: "io_post (io_return x) s Q = Q (Inr x) s"
  by (simp add: io_post_def io_return_def)
lemma io_post_throw [simp]: "io_post (io_throw e) s Q = Q (Inl e) s"
  by (simp add: io_post_def io_throw_def)
lemma io_post_lift [simp]: "io_post (io_lift r) s Q = Q r s"
  by (simp add: io_post_def io_lift_def)
lemma io_post_read [simp]: "io_post (io_read f) s Q = Q (Inr (f s)) s"
  by (simp add: io_post_def io_read_def)
lemma io_post_modify [simp]: "io_post (io_modify g) s Q = Q (Inr ()) (g s)"
  by (simp add: io_post_def io_modify_def)
lemma io_post_ext_call [simp]:
  "io_post (ext_call ev a) s Q = Q (a (trace s)) (s\<lparr>trace := trace s @ [ev]\<rparr>)"
  by (simp add: io_post_def ext_call_def)
lemma io_post_bind [simp]:
  "io_post (io_bind m f) s Q
   = io_post m s (\<lambda>r s'. case r of Inl e \<Rightarrow> Q (Inl e) s' | Inr x \<Rightarrow> io_post (f x) s' Q)"
  by (simp add: io_post_def io_bind_def split: prod.splits sum.splits)
lemma io_post_catch [simp]:
  "io_post (io_catch m h) s Q
   = io_post m s (\<lambda>r s'. case r of Inl e \<Rightarrow> io_post (h e) s' Q | Inr x \<Rightarrow> Q (Inr x) s')"
  by (simp add: io_post_def io_catch_def split: prod.splits sum.splits)
lemma io_post_mono:
  "io_post m s Q \<Longrightarrow> (\<And>r s'. Q r s' \<Longrightarrow> Q' r s') \<Longrightarrow> io_post m s Q'"
  by (simp add: io_post_def)

lemma trace_update_eq [simp]:
  "(s\<lparr>trace := a\<rparr> = s\<lparr>trace := b\<rparr>) = (a = b)"
  for s :: "'z io_state_scheme"
  by (metis io_state.select_convs(1) io_state.surjective io_state.update_convs(1))

lemma trace_update_id [simp]: "(s = s\<lparr>trace := b\<rparr>) = (trace s = b)" for s :: "'z io_state_scheme"
  by (metis io_state.select_convs(1) io_state.surjective io_state.update_convs(1))

lemma getTokenInfo_post:
  "io_post (getTokenInfo W a) s (\<lambda>r s'. \<exists>evs. s' = s\<lparr>trace := trace s @ evs\<rparr> \<and> list_all is_lookup evs)"
  by (simp add: getTokenInfo_def getTokenInfo_try_def split: option.splits sum.splits)

lemma getTokenInfo_wp:
  assumes "\<And>r evs. list_all is_lookup evs \<Longrightarrow> Q r (s\<lparr>trace := trace s @ evs\<rparr>)"
  shows "io_post (getTokenInfo W a) s Q"
  using getTokenInfo_post [of W a s] assms by (auto simp: io_post_def)

lemma prepare_post:
  "io_post (buyTokens_prepare W cfg) s
     (\<lambda>r s'. \<exists>evs. s' = s\<lparr>trace := trace s @ evs\<rparr> \<and> list_all is_lookup evs
         \<and> (\<forall>w m n b. r = Inr (w, m, n, b) \<longrightarrow> BigInt (slippage_of cfg) = Inr b))"
  apply (simp add: buyTokens_prepare_def loadWallet_def split: sum.splits)
  apply (intro allI impI conjI getTokenInfo_wp)
  apply (simp_all split: sum.splits option.splits)
  done


lemma prepare_wp:
  assumes "\<And>r evs. list_all is_lookup evs
             \<Longrightarrow> (\<forall>w m n b. r = Inr (w, m, n, b) \<longrightarrow> BigInt (slippage_of cfg) = Inr b)
             \<Longrightarrow> Q r (s\<lparr>trace := trace s @ evs\<rparr>)"
  shows "io_post (buyTokens_prepare W cfg) s Q"
  using prepare_post [of W cfg s] assms by (auto simp: io_post_def)

lemma submit_post:
  "io_post (buyTokens_submit W cfg (w, m, n, b)) s
     (\<lambda>r s'. \<exists>rest. s' = s\<lparr>trace := trace s @ SdkBuy w m n b PRIORITY_FEES # rest\<rparr>
         \<and> ((rest = [] \<and> (\<exists>e. r = Inl e))
            \<or> (\<exists>sig evs. rest = ConfirmTransaction sig ''confirmed'' # evs
                  \<and> list_all is_lookup evs)))"
  apply (simp add: buyTokens_submit_def split: sum.splits option.splits)
  apply (intro allI impI conjI getTokenInfo_wp)
  apply (simp_all split: sum.splits option.splits)
  done

lemma submit_wp:
  assumes "\<And>r rest. (rest = [] \<and> (\<exists>e. r = Inl e))
                      \<or> (\<exists>sig evs. rest = ConfirmTransaction sig ''confirmed'' # evs
                            \<and> list_all is_lookup evs)
             \<Longrightarrow> Q r (s\<lparr>trace := trace s @ SdkBuy w m n b PRIORITY_FEES # rest\<rparr>)"
  shows "io_post (buyTokens_submit W cfg (w, m, n, b)) s Q"
  using submit_post [of W cfg w m n b s] assms by (auto simp: io_post_def)


lemma io_catch_rethrow [simp]: "io_catch m (\<lambda>error. io_throw error) = m"
  by (auto simp: io_catch_def io_throw_def fun_eq_iff split: prod.splits sum.splits)

lemma TokenBuyer_buyTokens_post:
  "io_post (TokenBuyer_buyTokens W cfg) s
     (\<lambda>r s'. \<exists>pre post. s' = s\<lparr>trace := trace s @ pre @ post\<rparr>
         \<and> list_all is_lookup pre
         \<and> (post = [] \<and> (\<exists>e. r = Inl e)
            \<or> (\<exists>w m n b. post = [SdkBuy w m n b PRIORITY_FEES] \<and> (\<exists>e. r = Inl e)
                  \<and> BigInt (slippage_of cfg) = Inr b)
            \<or> (\<exists>w m n b sig evs.
                  post = SdkBuy w m n b PRIORITY_FEES # ConfirmTransaction sig ''confirmed'' # evs
                  \<and> list_all is_lookup evs \<and> BigInt (slippage_of cfg) = Inr b)))"
  (is "io_post _ _ ?Q")
proof (cases "this_sdk s")
  case None
  have "?Q (Inl (Error ''SDK not initialized'')) s"
    by (intro exI[of _ "[]"]) simp
  with None show ?thesis by (simp add: TokenBuyer_buyTokens_def)
next
  case (Some k)
  have "io_post (io_bind (buyTokens_prepare W cfg) (buyTokens_submit W cfg)) s ?Q"
    unfolding io_post_bind
  proof (rule prepare_wp)
    fix r :: "exn + keypair \<times> string \<times> int \<times> int" and evs
    assume l: "list_all is_lookup evs"
      and b: "\<forall>w m n b. r = Inr (w, m, n, b) \<longrightarrow> BigInt (slippage_of cfg) = Inr b"
    show "case r of Inl e \<Rightarrow> ?Q (Inl e) (s\<lparr>trace := trace s @ evs\<rparr>)
          | Inr x \<Rightarrow> io_post (buyTokens_submit W cfg x) (s\<lparr>trace := trace s @ evs\<rparr>) ?Q"
    proof (cases r)
      case (Inl e)
      have "?Q (Inl e) (s\<lparr>trace := trace s @ evs\<rparr>)"
        using l by (intro exI[of _ evs] exI[of _ "[]"]) simp
      with Inl show ?thesis by simp
    next
      case (Inr x)
      obtain w m n c where x: "x = (w, m, n, c)" by (cases x) auto
      from b Inr x have big: "BigInt (slippage_of cfg) = Inr c" by simp
      have "io_post (buyTokens_submit W cfg (w, m, n, c)) (s\<lparr>trace := trace s @ evs\<rparr>) ?Q"
      proof (rule submit_wp)
        fix r' :: "exn + unit" and rest
        assume t: "(rest = [] \<and> (\<exists>e. r' = Inl e))
                   \<or> (\<exists>sig evs. rest = ConfirmTransaction sig ''confirmed'' # evs
                         \<and> list_all is_lookup evs)"
        show "?Q r' (s\<lparr>trace := trace s @ evs\<rparr>
                      \<lparr>trace := trace (s\<lparr>trace := trace s @ evs\<rparr>)
                                @ SdkBuy w m n c PRIORITY_FEES # rest\<rparr>)"
          using t l big
          by (intro exI[of _ evs] exI[of _ "SdkBuy w m n c PRIORITY_FEES # rest"]) auto
      qed
      with Inr x show ?thesis by simp
    qed
  qed
  with Some show ?thesis by (simp add: TokenBuyer_buyTokens_def)
qed


lemma TokenBuyer_sellTokens_post:
  "io_post (TokenBuyer_sellTokens W a amount t) s
     (\<lambda>r s'. \<exists>post. s' = s\<lparr>trace := trace s @ post\<rparr>
         \<and> (post = [] \<and> (\<exists>e. r = Inl e)
            \<or> (\<exists>w m. post = [SdkSell w m amount 500] \<and> (\<exists>e. r = Inl e))
            \<or> (\<exists>w m sig. post = [SdkSell w m amount 500, ConfirmTransaction sig ''confirmed''])))"
  by (simp add: TokenBuyer_sellTokens_def sellTokens_try_def loadWallet_def
           split: option.splits sum.splits)

lemma buyTokens_post:
  "io_post (buyTokens W acct mint) s
     (\<lambda>r s'. r = Inr ()
        \<and> (\<exists>rest. s' = s\<lparr>trace := trace s
                  @ KeypairGenerate
                  # SdkCreateAndBuy acct (w_generate W (trace s)) TEMP_BUY_metadata
                      BUY_AMOUNT_LAMPORTS SLIPPAGE_BASIS_POINTS
                  # rest\<rparr>
              \<and> list_all (\<lambda>e. \<not> is_submission e) rest))"
  by (simp add: buyTokens_def printSPLBalance_def split: sum.splits)

lemma is_lookup_not_submission: "is_lookup e \<Longrightarrow> \<not> is_submission e \<and> \<not> is_confirmation e"
  by (cases e) auto

lemma lookups_filter:
  "list_all is_lookup xs \<Longrightarrow> filter is_submission xs = [] \<and> filter is_confirmation xs = []"
  by (induction xs) (auto dest: is_lookup_not_submission)

lemma lookups_dropWhile:
  "list_all is_lookup pre \<Longrightarrow>
   dropWhile (\<lambda>e. \<not> is_confirmation e) (pre @ post) = dropWhile (\<lambda>e. \<not> is_confirmation e) post"
  by (induction pre) (auto dest: is_lookup_not_submission)


subsection \<open>The basic example's buyTokens\<close>

text \<open>
  C7: whatever the SDK answers, \<open>buyTokens\<close> of the basic example first generates a
  new keypair and then calls \<open>createAndBuy\<close> for that new mint (with the fixed
  metadata TEMP-BUY, 100000 lamports and 100 basis points). It makes no other
  submission, no call of the SDK's \<open>buy\<close> at all, and the mint passed in has no
  influence on what it does. It never throws.
\<close>

theorem buyTokens_buys_throwaway_mint:
  "fst (buyTokens W testAccount mint s) = Inr ()
   \<and> (\<exists>evs rest.
         trace (snd (buyTokens W testAccount mint s)) = trace s @ evs
         \<and> evs = KeypairGenerate
                 # SdkCreateAndBuy testAccount (w_generate W (trace s)) TEMP_BUY_metadata
                     100000 100
                 # rest
         \<and> filter is_submission rest = []
         \<and> filter is_SdkBuy evs = [])
   \<and> buyTokens W testAccount mint s = buyTokens W testAccount mint' s"
proof -
  from buyTokens_post [of W testAccount mint s]
  obtain rest where r: "fst (buyTokens W testAccount mint s) = Inr ()"
    and tr: "snd (buyTokens W testAccount mint s)
             = s\<lparr>trace := trace s
                  @ KeypairGenerate
                  # SdkCreateAndBuy testAccount (w_generate W (trace s)) TEMP_BUY_metadata
                      BUY_AMOUNT_LAMPORTS SLIPPAGE_BASIS_POINTS
                  # rest\<rparr>"
    and ns: "list_all (\<lambda>e. \<not> is_submission e) rest"
    unfolding io_post_def by blast
  have f1: "filter is_submission rest = []"
    using ns by (induction rest) auto
  have "is_SdkBuy e \<Longrightarrow> is_submission e" for e
    by (cases e) auto
  with ns have f2: "filter is_SdkBuy rest = []"
    by (induction rest) auto
  have "trace (snd (buyTokens W testAccount mint s))
        = trace s @ (KeypairGenerate
            # SdkCreateAndBuy testAccount (w_generate W (trace s)) TEMP_BUY_metadata 100000 100
            # rest)"
    by (simp add: tr BUY_AMOUNT_LAMPORTS_def SLIPPAGE_BASIS_POINTS_def)
  moreover have "filter is_SdkBuy (KeypairGenerate
            # SdkCreateAndBuy testAccount (w_generate W (trace s)) TEMP_BUY_metadata 100000 100
            # rest) = []"
    using f2 by simp
  moreover have "buyTokens W testAccount mint s = buyTokens W testAccount mint' s"
    by (simp add: buyTokens_def)
  ultimately show ?thesis using r f1 by blast
qed

theorem buyTokens_buys_throwaway_mint_witness:
  "fst (buyTokens world_ok demo_keypair demo_keypair io_empty) = Inr ()
   \<and> trace (snd (buyTokens world_ok demo_keypair demo_keypair io_empty))
     = [KeypairGenerate,
        SdkCreateAndBuy demo_keypair \<lparr> publicKey = ''TMP'', secretKey = [] \<rparr> TEMP_BUY_metadata
          100000 100,
        GetParsedTokenAccountsByOwner ''PK'' ''TMP'',
        SdkGetBondingCurveAccount ''TMP'']"
proof -
  have "trace (snd (buyTokens world_ok demo_keypair demo_keypair io_empty))
     = [KeypairGenerate,
        SdkCreateAndBuy demo_keypair \<lparr> publicKey = ''TMP'', secretKey = [] \<rparr> TEMP_BUY_metadata
          100000 100,
        GetParsedTokenAccountsByOwner ''PK'' ''TMP'',
        SdkGetBondingCurveAccount ''TMP'']"
    by code_simp
  then show ?thesis
    using buyTokens_buys_throwaway_mint [of world_ok demo_keypair demo_keypair io_empty]
    by simp
qed


subsection \<open>TokenBuyer: submissions of one execution\<close>



lemma buy_ok_trace:
  "trace (snd (TokenBuyer_buyTokens world_ok main_buyConfig buyer_ready))
   = [SdkGetBondingCurveAccount ''7vS7ViHrrMSx19kG95k1KKDFDdq3YTBZNJrDwhPTTj9v'',
      SdkGetBondingCurveAccount ''7vS7ViHrrMSx19kG95k1KKDFDdq3YTBZNJrDwhPTTj9v'',
      SdkBuy demo_keypair ''7vS7ViHrrMSx19kG95k1KKDFDdq3YTBZNJrDwhPTTj9v'' 100000 500
        PRIORITY_FEES,
      ConfirmTransaction ''sig'' ''confirmed'',
      SdkGetBondingCurveAccount ''7vS7ViHrrMSx19kG95k1KKDFDdq3YTBZNJrDwhPTTj9v'']"
  by code_simp

text \<open>
  When the confirmation times out, the execution ends with the timeout error right
  after its single submission and its single confirmation query.
\<close>

lemma buy_timeout_run:
  "TokenBuyer_buyTokens world_timeout main_buyConfig buyer_ready
   = (Inl (Exn ''TransactionExpiredTimeoutError''
             ''Transaction was not confirmed in 30.00 seconds''),
      buyer_ready\<lparr> trace :=
        [SdkGetBondingCurveAccount ''7vS7ViHrrMSx19kG95k1KKDFDdq3YTBZNJrDwhPTTj9v'',
         SdkGetBondingCurveAccount ''7vS7ViHrrMSx19kG95k1KKDFDdq3YTBZNJrDwhPTTj9v'',
         SdkBuy demo_keypair ''7vS7ViHrrMSx19kG95k1KKDFDdq3YTBZNJrDwhPTTj9v'' 100000 500
           PRIORITY_FEES,
         ConfirmTransaction ''sig'' ''confirmed''] \<rparr>)"
  by code_simp



subsection \<open>TokenBuyer: the steps before the submission\<close>

lemma BigInt_of_int: "BigInt (Num (of_int n)) = Inr n"
  by simp

lemma loadWallet_run:
  "loadWallet W t s
   = (if t = Trading then loadTradingWallet (w_fs W) (this_walletsDir s)
      else loadTestWallet (w_fs W) (this_walletsDir s), s)"
  by (simp add: loadWallet_def io_bind_def io_read_def io_lift_def)

lemma getTokenInfo_ok:
  assumes "this_sdk s = Some k"
    and "w_newPublicKey W a = Inr mint"
    and "w_getBondingCurveAccount W (trace s) mint = Inr a1"
    and "\<forall>acct. a1 = Some acct \<longrightarrow>
           (\<exists>p. w_getBuyPrice W acct 1000 = Inr p) \<and> (\<exists>q. w_getSellPrice W acct 1000 100 = Inr q)"
  shows "getTokenInfo W a s = (Inr (), s\<lparr>trace := trace s @ [SdkGetBondingCurveAccount mint]\<rparr>)"
  using assms
  by (cases a1)
     (auto simp: getTokenInfo_def getTokenInfo_try_def io_bind_def io_read_def io_lift_def
                 ext_call_def io_return_def)

lemma prepare_run:
  assumes "this_sdk s = Some k"
    and "(if walletType_of cfg = Trading then loadTradingWallet (w_fs W) (this_walletsDir s)
          else loadTestWallet (w_fs W) (this_walletsDir s)) = Inr wallet"
    and "w_newPublicKey W (mintAddress cfg) = Inr mint"
    and "w_toLamports W (buyAmountSol cfg) = Inr amount"
    and "w_getBondingCurveAccount W (trace s) mint = Inr a1"
    and "\<forall>acct. a1 = Some acct \<longrightarrow>
           (\<exists>p. w_getBuyPrice W acct 1000 = Inr p) \<and> (\<exists>q. w_getSellPrice W acct 1000 100 = Inr q)"
    and "w_getBondingCurveAccount W (trace s @ [SdkGetBondingCurveAccount mint]) mint = Inr a2"
  shows "buyTokens_prepare W cfg s
         = (case a2 of
              None \<Rightarrow> Inl (Error ''Token not found on Pump.fun. Cannot buy.'')
            | Some acct \<Rightarrow>
                (case BigInt (slippage_of cfg) of
                   Inl e \<Rightarrow> Inl e
                 | Inr n \<Rightarrow> Inr (wallet, mint, amount, n)),
            s\<lparr>trace := trace s @ [SdkGetBondingCurveAccount mint,
                                   SdkGetBondingCurveAccount mint]\<rparr>)"
proof -
  note g = getTokenInfo_ok [OF assms(1) assms(3) assms(5) assms(6)]
  show ?thesis
    using assms(2,3,4,7)
    by (simp add: buyTokens_prepare_def io_bind_def [of "loadWallet W (walletType_of cfg)"]
                  loadWallet_run)
       (simp add: io_bind_def io_lift_def g ext_call_def io_throw_def io_return_def
             split: option.splits sum.splits)
qed

lemma buyTokens_run:
  assumes "this_sdk s = Some k"
  shows "TokenBuyer_buyTokens W cfg s
         = (case buyTokens_prepare W cfg s of
              (Inl e, s1) \<Rightarrow> (Inl e, s1)
            | (Inr args, s1) \<Rightarrow> buyTokens_submit W cfg args s1)"
  using assms by (simp add: TokenBuyer_buyTokens_def io_bind_def io_read_def)

lemma count_lookups:
  "list_all is_lookup xs \<Longrightarrow> count_list xs (SdkBuy w m n b f) = 0"
  by (induction xs) auto


subsection \<open>TokenBuyer: the slippage tolerance\<close>



text \<open>The answers of \<open>world_ok\<close> to the steps before the submission, at any trace.\<close>

lemma world_ok_wallet:
  "(if t = Trading then loadTradingWallet (w_fs world_ok) d
    else loadTestWallet (w_fs world_ok) d) = Inr demo_keypair"
  by (simp add: world_ok_def world_with_def loadTradingWallet_def loadTestWallet_def
                loadWalletFromFile_def loadWalletFromFile_try_def fs_good_def fs_with_def)

lemma world_ok_key: "w_newPublicKey world_ok demo_mint = Inr demo_mint"
  by (simp add: world_ok_def world_with_def demo_newPublicKey_def)

lemma world_ok_amount: "w_toLamports world_ok (Num (1 / 10000)) = Inr 100000"
  by (simp add: world_ok_def world_with_def demo_toLamports_def)

lemma world_ok_lookup: "w_getBondingCurveAccount world_ok tr m = Inr (Some demo_curve)"
  by (simp add: world_ok_def world_with_def)

lemma world_ok_prices:
  "\<forall>acct. Some demo_curve = Some acct \<longrightarrow>
     (\<exists>p. w_getBuyPrice world_ok acct 1000 = Inr p)
     \<and> (\<exists>q. w_getSellPrice world_ok acct 1000 100 = Inr q)"
  by (simp add: world_ok_def world_with_def)

lemma buy_half_run:
  "BigInt (slippage_of config_half)
   = Inl (Exn ''RangeError''
            ''The number cannot be converted to a BigInt because it is not an integer'')"
  by code_simp



subsection \<open>TokenBuyer: repeated executions\<close>

text \<open>
  C2, as stated, fails: two executions of \<open>TokenBuyer.buyTokens\<close> with the same
  configuration, one after the other, both return normally and the trace then holds
  two submissions.
\<close>

theorem buyTokens_twice_counterexample:
  "fst (TokenBuyer_buyTokens world_ok main_buyConfig buyer_ready) = Inr ()
   \<and> fst (TokenBuyer_buyTokens world_ok main_buyConfig
            (snd (TokenBuyer_buyTokens world_ok main_buyConfig buyer_ready))) = Inr ()
   \<and> length (filter is_submission
        (trace (snd (TokenBuyer_buyTokens world_ok main_buyConfig
                       (snd (TokenBuyer_buyTokens world_ok main_buyConfig buyer_ready)))))) = 2"
  by code_simp

text \<open>
  C2 (amended): executing the same intent again submits it again; there is no
  operation log and no dedup window. Let the SDK be initialised and let the world
  answer the steps before the submission (the wallet loads, the mint address is
  accepted, the amount converts, the first lookup does not fail, the second lookup
  finds the token) and let the tolerance be an integer. Then one execution of
  \<open>TokenBuyer.buyTokens\<close> adds exactly one \<open>sdk.buy\<close> call with these arguments to
  the trace, however many identical calls the trace already holds.
\<close>

theorem TokenBuyer_buyTokens_no_dedup:
  assumes "this_sdk s = Some k"
    and "(if walletType_of cfg = Trading then loadTradingWallet (w_fs W) (this_walletsDir s)
          else loadTestWallet (w_fs W) (this_walletsDir s)) = Inr wallet"
    and "w_newPublicKey W (mintAddress cfg) = Inr mint"
    and "w_toLamports W (buyAmountSol cfg) = Inr amount"
    and "w_getBondingCurveAccount W (trace s) mint = Inr a1"
    and "\<forall>acct. a1 = Some acct \<longrightarrow>
           (\<exists>p. w_getBuyPrice W acct 1000 = Inr p) \<and> (\<exists>q. w_getSellPrice W acct 1000 100 = Inr q)"
    and "w_getBondingCurveAccount W (trace s @ [SdkGetBondingCurveAccount mint]) mint
         = Inr (Some a2)"
    and "slippage_of cfg = Num (of_int n)"
  shows "count_list (trace (snd (TokenBuyer_buyTokens W cfg s)))
           (SdkBuy wallet mint amount n PRIORITY_FEES)
         = count_list (trace s) (SdkBuy wallet mint amount n PRIORITY_FEES) + 1"
proof -
  let ?s2 = "s\<lparr>trace := trace s @ [SdkGetBondingCurveAccount mint,
                                       SdkGetBondingCurveAccount mint]\<rparr>"
  have run: "TokenBuyer_buyTokens W cfg s
             = buyTokens_submit W cfg (wallet, mint, amount, n) ?s2"
    by (simp add: buyTokens_run [OF assms(1)] prepare_run [OF assms(1-7)] assms(8)
                  BigInt_of_int)
  from submit_post [of W cfg wallet mint amount n ?s2]
  obtain rest where
    snd: "snd (buyTokens_submit W cfg (wallet, mint, amount, n) ?s2)
          = ?s2\<lparr>trace := trace ?s2 @ SdkBuy wallet mint amount n PRIORITY_FEES # rest\<rparr>"
    and rest: "rest = []
       \<or> (\<exists>sig evs. rest = ConfirmTransaction sig ''confirmed'' # evs
             \<and> list_all is_lookup evs)"
    unfolding io_post_def by blast
  have "count_list rest (SdkBuy wallet mint amount n PRIORITY_FEES) = 0"
    using rest by (auto simp: count_lookups)
  then show ?thesis
    by (simp add: run snd)
qed

lemma buyer_after_buy_state:
  "this_sdk buyer_after_buy = Some ''PK''
   \<and> this_walletsDir buyer_after_buy = ''./wallets''
   \<and> trace buyer_after_buy
     = [SdkGetBondingCurveAccount demo_mint, SdkGetBondingCurveAccount demo_mint,
        SdkBuy demo_keypair demo_mint 100000 500 PRIORITY_FEES,
        ConfirmTransaction ''sig'' ''confirmed'',
        SdkGetBondingCurveAccount demo_mint]"
  unfolding buyer_after_buy_def by code_simp

theorem TokenBuyer_buyTokens_no_dedup_witness:
  "count_list (trace buyer_after_buy) (SdkBuy demo_keypair demo_mint 100000 500 PRIORITY_FEES)
   = 1
   \<and> count_list (trace (snd (TokenBuyer_buyTokens world_ok main_buyConfig buyer_after_buy)))
       (SdkBuy demo_keypair demo_mint 100000 500 PRIORITY_FEES)
     = 2"
proof -
  have one: "count_list (trace buyer_after_buy)
               (SdkBuy demo_keypair demo_mint 100000 500 PRIORITY_FEES) = 1"
    by (simp add: buyer_after_buy_state)
  have sdk: "this_sdk buyer_after_buy = Some ''PK''"
    by (simp add: buyer_after_buy_state)
  have k: "w_newPublicKey world_ok (mintAddress main_buyConfig) = Inr demo_mint"
    using world_ok_key by (simp add: main_buyConfig_def demo_mint_def)
  have a: "w_toLamports world_ok (buyAmountSol main_buyConfig) = Inr 100000"
    using world_ok_amount by (simp add: main_buyConfig_def)
  have tol: "slippage_of main_buyConfig = Num (of_int 500)"
    by (simp add: main_buyConfig_def slippage_of_def)
  from TokenBuyer_buyTokens_no_dedup
         [OF sdk world_ok_wallet k a world_ok_lookup world_ok_prices world_ok_lookup tol]
       one
  show ?thesis by simp
qed


subsection \<open>TokenBuyer: how failures are reported\<close>


lemma listWallets_run:
  "listWallets W s
   = (case listAvailableWallets (w_fs W) (this_walletsDir s) of
        Inl e \<Rightarrow> (Inl e, s)
      | Inr wallets \<Rightarrow> (Inr (), s))"
  by (simp add: listWallets_def io_bind_def io_read_def io_lift_def io_return_def
           split: sum.splits)

lemma main_run:
  "main W tr
   = (case listAvailableWallets (w_fs W) ''./wallets'' of
        Inl e \<Rightarrow> (Exited 1, tr @ [ProcessExit 1])
      | Inr wallets \<Rightarrow>
          (case initializeSDK W Trading (TokenBuyer_new W tr) of
             (Inl e, s1) \<Rightarrow> (Exited 1, trace s1 @ [ProcessExit 1])
           | (Inr u, s1) \<Rightarrow>
               (case TokenBuyer_buyTokens W main_buyConfig s1 of
                  (Inl e, s2) \<Rightarrow> (Exited 1, trace s2 @ [ProcessExit 1])
                | (Inr v, s2) \<Rightarrow> (Completed, trace s2))))"
  by (simp add: main_def main_try_def io_bind_def listWallets_run TokenBuyer_new_def
           split: sum.splits prod.splits)


lemma world_unreadable_list:
  "listAvailableWallets (w_fs world_unreadable) ''./wallets''
   = Inl (Error ''EACCES: permission denied, scandir'')"
  by code_simp

lemma world_no_wallet_list: "listAvailableWallets (w_fs world_no_wallet) ''./wallets'' = Inr []"
  by code_simp

lemma world_no_wallet_init:
  "\<exists>e. initializeSDK world_no_wallet Trading (TokenBuyer_new world_no_wallet [])
        = (Inl e, TokenBuyer_new world_no_wallet [])"
proof -
  have "snd (initializeSDK world_no_wallet Trading (TokenBuyer_new world_no_wallet []))
        = TokenBuyer_new world_no_wallet []"
    by code_simp
  moreover have "isl (fst (initializeSDK world_no_wallet Trading
                             (TokenBuyer_new world_no_wallet [])))"
    by code_simp
  ultimately show ?thesis
    by (cases "initializeSDK world_no_wallet Trading (TokenBuyer_new world_no_wallet [])")
       (auto simp: isl_def)
qed

lemma world_list:
  "listAvailableWallets (w_fs (world_with listed)) ''./wallets'' = Inr [''k.json'']"
  by (cases listed) (simp, code_simp, simp, code_simp)

lemma world_init:
  "fst (initializeSDK (world_with listed) Trading (TokenBuyer_new (world_with listed) []))
   = Inr ()"
  by (cases listed) (simp, code_simp, simp, code_simp)

lemma world_no_token_buy:
  "\<exists>e. fst (TokenBuyer_buyTokens world_no_token main_buyConfig
               (snd (initializeSDK world_no_token Trading (TokenBuyer_new world_no_token []))))
        = Inl e"
proof -
  have "fst (TokenBuyer_buyTokens world_no_token main_buyConfig
               (snd (initializeSDK world_no_token Trading (TokenBuyer_new world_no_token []))))
        = Inl (Error ''Token not found on Pump.fun. Cannot buy.'')"
    by code_simp
  then show ?thesis by blast
qed

lemma world_ok_buy:
  "fst (TokenBuyer_buyTokens world_ok main_buyConfig
          (snd (initializeSDK world_ok Trading (TokenBuyer_new world_ok [])))) = Inr ()"
  by code_simp

lemma buy_ok_result: "fst (TokenBuyer_buyTokens world_ok main_buyConfig buyer_ready) = Inr ()"
  by code_simp

lemma world_no_token_answers:
  "w_newPublicKey world_no_token (mintAddress main_buyConfig) = Inr demo_mint
   \<and> w_toLamports world_no_token (buyAmountSol main_buyConfig) = Inr 100000
   \<and> (if walletType_of main_buyConfig = Trading
       then loadTradingWallet (w_fs world_no_token) (this_walletsDir buyer_ready)
       else loadTestWallet (w_fs world_no_token) (this_walletsDir buyer_ready))
     = Inr demo_keypair
   \<and> w_getBondingCurveAccount world_no_token tr m = Inr None"
  by (simp add: world_no_token_def world_with_def main_buyConfig_def demo_mint_def
                demo_newPublicKey_def demo_toLamports_def loadTradingWallet_def
                loadTestWallet_def loadWalletFromFile_def loadWalletFromFile_try_def
                fs_good_def fs_with_def)


end
